theory Spec2Isabelle
  imports Main
begin

section \<open>JavaScript strings\<close>

text \<open>
  A string is the list of its UTF-16 code units, and a character of the model is a code
  unit below \<open>0x100\<close>, that is a code point of Latin-1: a string holding any other code
  unit is outside the model. On these strings the operations below are the ones of the
  JavaScript string library that the plugin calls. \<open>toLowerCase\<close> maps \<open>A\<close>..\<open>Z\<close> to
  \<open>a\<close>..\<open>z\<close> and the capital letters \<open>0xC0\<close>..\<open>0xDE\<close> (all but the multiplication sign
  \<open>0xD7\<close>) to the letters \<open>0x20\<close> above them. \<open>trim\<close> removes tab, line feed, vertical
  tab, form feed, carriage return, space and the no-break space \<open>0xA0\<close> from both ends.
\<close>

definition lowerChar :: "char \<Rightarrow> char" where
  "lowerChar c =
     (case map_of
             (zip (''ABCDEFGHIJKLMNOPQRSTUVWXYZ'' @
                   [CHR 0xC0, CHR 0xC1, CHR 0xC2, CHR 0xC3, CHR 0xC4,
                    CHR 0xC5, CHR 0xC6, CHR 0xC7, CHR 0xC8, CHR 0xC9,
                    CHR 0xCA, CHR 0xCB, CHR 0xCC, CHR 0xCD, CHR 0xCE,
                    CHR 0xCF, CHR 0xD0, CHR 0xD1, CHR 0xD2, CHR 0xD3,
                    CHR 0xD4, CHR 0xD5, CHR 0xD6, CHR 0xD8, CHR 0xD9,
                    CHR 0xDA, CHR 0xDB, CHR 0xDC, CHR 0xDD, CHR 0xDE])
                  (''abcdefghijklmnopqrstuvwxyz'' @
                   [CHR 0xE0, CHR 0xE1, CHR 0xE2, CHR 0xE3, CHR 0xE4,
                    CHR 0xE5, CHR 0xE6, CHR 0xE7, CHR 0xE8, CHR 0xE9,
                    CHR 0xEA, CHR 0xEB, CHR 0xEC, CHR 0xED, CHR 0xEE,
                    CHR 0xEF, CHR 0xF0, CHR 0xF1, CHR 0xF2, CHR 0xF3,
                    CHR 0xF4, CHR 0xF5, CHR 0xF6, CHR 0xF8, CHR 0xF9,
                    CHR 0xFA, CHR 0xFB, CHR 0xFC, CHR 0xFD, CHR 0xFE]))
             c of
        Some d \<Rightarrow> d
      | None \<Rightarrow> c)"

definition toLowerCase :: "string \<Rightarrow> string" where
  "toLowerCase s = map lowerChar s"

definition isWhiteSpace :: "char \<Rightarrow> bool" where
  "isWhiteSpace c =
     (c \<in> set [CHR 0x09, CHR 0x0A, CHR 0x0B, CHR 0x0C, CHR 0x0D, CHR '' '', CHR 0xA0])"

definition trim :: "string \<Rightarrow> string" where
  "trim s = rev (dropWhile isWhiteSpace (rev (dropWhile isWhiteSpace s)))"

definition startsWith :: "string \<Rightarrow> string \<Rightarrow> bool" where
  "startsWith s p = (take (length p) s = p)"

text \<open>\<open>s.split(sep)\<close> for a one-character separator: never an empty array.\<close>

fun splitOn :: "char \<Rightarrow> string \<Rightarrow> string list" where
  "splitOn sep [] = [[]]"
| "splitOn sep (c # cs) =
     (if c = sep then [] # splitOn sep cs
      else (case splitOn sep cs of
              x # xs \<Rightarrow> (c # x) # xs
            | [] \<Rightarrow> [[c]]))"

text \<open>\<open>parts.join(sep)\<close>.\<close>

fun joinWith :: "char \<Rightarrow> string list \<Rightarrow> string" where
  "joinWith sep [] = []"
| "joinWith sep [x] = x"
| "joinWith sep (x # y # ys) = x @ sep # joinWith sep (y # ys)"

text \<open>
  \<open>s.replace(pattern, replacement)\<close> with a string pattern: the first occurrence of the
  pattern is replaced, and the replacement string is a template in which \<open>$$\<close> stands for
  a dollar sign, \<open>$&\<close> for the matched text, \<open>$`\<close> for the text before the match and
  \<open>$'\<close> for the text after it. With a string pattern there are no capture groups, so every
  other \<open>$\<close> is literal.
\<close>

fun splitAtFirst :: "string \<Rightarrow> string \<Rightarrow> (string \<times> string) option" where
  "splitAtFirst pat [] = (if pat = [] then Some ([], []) else None)"
| "splitAtFirst pat (c # cs) =
     (if startsWith (c # cs) pat then Some ([], drop (length pat) (c # cs))
      else map_option (\<lambda>(b, a). (c # b, a)) (splitAtFirst pat cs))"

fun getSubstitution :: "string \<Rightarrow> string \<Rightarrow> string \<Rightarrow> string \<Rightarrow> string" where
  "getSubstitution front matched back [] = []"
| "getSubstitution front matched back [c] = [c]"
| "getSubstitution front matched back (c # d # rest) =
     (if c = CHR ''$'' \<and> d = CHR ''$'' then CHR ''$'' # getSubstitution front matched back rest
      else if c = CHR ''$'' \<and> d = CHR ''&'' then matched @ getSubstitution front matched back rest
      else if c = CHR ''$'' \<and> d = CHR 0x60 then front @ getSubstitution front matched back rest
      else if c = CHR ''$'' \<and> d = CHR 0x27 then back @ getSubstitution front matched back rest
      else c # getSubstitution front matched back (d # rest))"

definition replace :: "string \<Rightarrow> string \<Rightarrow> string \<Rightarrow> string" where
  "replace s pat rep =
     (case splitAtFirst pat s of
        None \<Rightarrow> s
      | Some (front, back) \<Rightarrow> front @ getSubstitution front pat back rep @ back)"

text \<open>Decimal notation of a natural number, as \<open>String(i)\<close> prints an array index.\<close>

fun decimal :: "nat \<Rightarrow> string" where
  "decimal n =
     (if n < 10 then [''0123456789'' ! n]
      else decimal (n div 10) @ [''0123456789'' ! (n mod 10)])"

declare decimal.simps [simp del]

section \<open>JavaScript values and errors\<close>

text \<open>
  What \<open>response.json()\<close> can deliver, with \<open>undefined\<close> added for reads of absent
  properties. Numbers are integers (fractions play no part here, and integers are taken
  below \<open>10^21\<close>, where JavaScript prints them in plain decimal notation); an object is
  the list of its own properties. Properties inherited from a prototype are not modelled.
\<close>

datatype jsvalue =
    JUndefined
  | JNull
  | JBool bool
  | JNum int
  | JStr string
  | JArr "jsvalue list"
  | JObj "(string \<times> jsvalue) list"

datatype error =
    NotConfigured        \<comment> \<open>the \<open>Error\<close> thrown by the placeholder guard of \<open>uploadImage\<close>\<close>
  | DownloadFailed nat   \<comment> \<open>download answered with a status other than 200\<close>
  | HttpError nat        \<comment> \<open>upload answered with a status outside 200..299\<close>
  | EmptyUrl             \<comment> \<open>\<open>uploadImage\<close> returned a falsy value\<close>
  | TypeError            \<comment> \<open>a property read on \<open>undefined\<close> or \<open>null\<close>\<close>
  | InvalidURL           \<comment> \<open>the \<open>TypeError\<close> of \<open>new URL(s)\<close> on a string it cannot parse\<close>
  | Rejected string      \<comment> \<open>a rejection raised by the platform: network failure, invalid JSON\<close>

text \<open>Truthiness, as \<open>if (v)\<close> and \<open>v && w\<close> test it.\<close>

fun truthy :: "jsvalue \<Rightarrow> bool" where
  "truthy JUndefined = False"
| "truthy JNull = False"
| "truthy (JBool b) = b"
| "truthy (JNum n) = (n \<noteq> 0)"
| "truthy (JStr s) = (s \<noteq> [])"
| "truthy (JArr xs) = True"
| "truthy (JObj kvs) = True"

text \<open>
  \<open>v[k]\<close> on a value other than \<open>undefined\<close> and \<open>null\<close>: an object's own property, an
  array's element or length, a string's character or length; \<open>undefined\<close> otherwise.
\<close>

fun member :: "jsvalue \<Rightarrow> string \<Rightarrow> jsvalue" where
  "member (JObj kvs) k = (case map_of kvs k of Some v \<Rightarrow> v | None \<Rightarrow> JUndefined)"
| "member (JArr xs) k =
     (if k = ''length'' then JNum (int (length xs))
      else (case find (\<lambda>i. decimal i = k) [0..<length xs] of
              Some i \<Rightarrow> xs ! i
            | None \<Rightarrow> JUndefined))"
| "member (JStr s) k =
     (if k = ''length'' then JNum (int (length s))
      else (case find (\<lambda>i. decimal i = k) [0..<length s] of
              Some i \<Rightarrow> JStr [s ! i]
            | None \<Rightarrow> JUndefined))"
| "member v k = JUndefined"

text \<open>\<open>v.k\<close>: a \<open>TypeError\<close> on \<open>undefined\<close> and \<open>null\<close>.\<close>

definition getProp :: "jsvalue \<Rightarrow> string \<Rightarrow> error + jsvalue" where
  "getProp v k = (if v = JUndefined \<or> v = JNull then Inl TypeError else Inr (member v k))"

text \<open>\<open>String(v)\<close>, the conversion \<open>replace\<close> applies to a replacement that is no string.\<close>

fun toStringJS :: "jsvalue \<Rightarrow> string" where
  "toStringJS JUndefined = ''undefined''"
| "toStringJS JNull = ''null''"
| "toStringJS (JBool b) = (if b then ''true'' else ''false'')"
| "toStringJS (JNum n) = (if n < 0 then CHR ''-'' # decimal (nat (- n)) else decimal (nat n))"
| "toStringJS (JStr s) = s"
| "toStringJS (JArr xs) =
     joinWith CHR '',''
       (map (\<lambda>x. if x = JUndefined \<or> x = JNull then [] else toStringJS x) xs)"
| "toStringJS (JObj kvs) = ''[object Object]''"

section \<open>Settings and progress\<close>

record ImageUploaderSettings =
  apiUrl :: string
  method_s :: string
  jsonPath :: string
  blacklistDomains :: "string list"
  autoUploadOnPaste :: bool
  customHeaders :: "string list"
  defaultWidthLarge :: int
  defaultWidthMedium :: int
  defaultWidthSmall :: int
  enableAutoWidth :: bool

definition DEFAULT_SETTINGS :: ImageUploaderSettings where
  "DEFAULT_SETTINGS =
     \<lparr> apiUrl = ''http://your-api.com/upload'',
       method_s = ''POST'',
       jsonPath = ''data.url'',
       blacklistDomains = [],
       autoUploadOnPaste = True,
       customHeaders = [],
       defaultWidthLarge = 800,
       defaultWidthMedium = 600,
       defaultWidthSmall = 400,
       enableAutoWidth = True \<rparr>"

text \<open>
  \<open>UploadProgress\<close>. The field \<open>total\<close> is written \<open>total_n\<close> (and \<open>method\<close> of the
  settings \<open>method_s\<close>); an entry of \<open>errors\<close> pairs the
  URL with the error whose message the source stores.
\<close>

record UploadProgress =
  total_n :: nat
  current :: nat
  success :: nat
  failed :: nat
  skipped :: nat
  blacklisted :: nat
  errors :: "(string \<times> error) list"

section \<open>The platform\<close>

text \<open>
  The URL parser and the two HTTP clients belong to the host, not to the plugin: they are
  parameters of the model. \<open>newURL s\<close> is \<open>None\<close> when \<open>new URL(s)\<close> throws. \<open>requestUrl\<close>
  is Obsidian's client (used for the download), \<open>fetch\<close> the browser's (used for the
  upload); \<open>Inl\<close> is a rejected promise. \<open>res_json\<close> is \<open>None\<close> when the body is not JSON.
\<close>

record URL =
  origin :: string
  pathname :: string

record RequestUrlResponse =
  dl_status :: nat
  dl_headers :: "(string \<times> string) list"
  arrayBuffer :: string

record File =
  file_bits :: string
  file_name :: string
  file_type :: string

record FetchRequest =
  req_url :: string
  req_method :: string
  req_image :: File
  req_headers :: "(string \<times> string) list"

record Response =
  res_status :: nat
  res_json :: "jsvalue option"

definition res_ok :: "Response \<Rightarrow> bool" where
  "res_ok r = (200 \<le> res_status r \<and> res_status r \<le> 299)"

record platform =
  newURL :: "string \<Rightarrow> URL option"
  requestUrl :: "string \<Rightarrow> string + RequestUrlResponse"
  fetch :: "FetchRequest \<Rightarrow> string + Response"

text \<open>The network requests a call issues, in order.\<close>

datatype request = Download string | Upload FetchRequest

section \<open>The plugin (first listing of \<open>part_000\<close>)\<close>

subsection \<open>Policy filter\<close>

text \<open>\<open>s.replace(/^https?:\/\//, '')\<close>: the regular expression is case-sensitive.\<close>

definition stripProtocol :: "string \<Rightarrow> string" where
  "stripProtocol s =
     (if startsWith s ''http://'' then drop 7 s
      else if startsWith s ''https://'' then drop 8 s
      else s)"

text \<open>
  \<open>isUrlBlacklisted\<close>. Nothing in the body throws on strings, so the \<open>catch\<close> branch is
  not reached.
\<close>

definition isUrlBlacklisted :: "ImageUploaderSettings \<Rightarrow> string \<Rightarrow> bool" where
  "isUrlBlacklisted s url =
     (let urlLower = toLowerCase url in
        list_ex
          (\<lambda>domain.
             let domainLower = trim (toLowerCase domain);
                 urlWithoutProtocol = stripProtocol urlLower;
                 domainWithoutProtocol = stripProtocol domainLower
             in startsWith urlWithoutProtocol domainWithoutProtocol)
          (blacklistDomains s))"

subsection \<open>File name and MIME type of a download\<close>

definition substringAfterLast :: "char \<Rightarrow> string \<Rightarrow> string" where
  "substringAfterLast c s = rev (takeWhile (\<lambda>x. x \<noteq> c) (rev s))"

definition getUrlFileName :: "platform \<Rightarrow> string \<Rightarrow> string" where
  "getUrlFileName e url =
     (case newURL e url of
        None \<Rightarrow> ''image.jpg''
      | Some urlObj \<Rightarrow>
          (let fileName = substringAfterLast CHR ''/'' (pathname urlObj)
           in if fileName \<noteq> [] then fileName else ''image.jpg''))"

definition mimeTypes :: "(string \<times> string) list" where
  "mimeTypes =
     [(''png'', ''image/png''), (''jpg'', ''image/jpeg''), (''jpeg'', ''image/jpeg''),
      (''gif'', ''image/gif''), (''webp'', ''image/webp''), (''bmp'', ''image/bmp'')]"

definition getMimeType :: "string \<Rightarrow> string" where
  "getMimeType url =
     (let ext = toLowerCase (last (splitOn CHR ''.'' url))
      in case map_of mimeTypes ext of
           Some t \<Rightarrow> t
         | None \<Rightarrow> ''image/jpeg'')"

subsection \<open>Uploader\<close>

text \<open>
  The \<open>reduce\<close> over \<open>customHeaders\<close>: \<open>header.split(':').map(s => s.trim())\<close> is
  destructured into its first two elements, and \<open>acc[key] = value\<close> is stored when both
  are non-empty. \<open>setHeader\<close> is the assignment: a key already there keeps its place.
\<close>

fun setHeader :: "(string \<times> string) list \<Rightarrow> string \<Rightarrow> string \<Rightarrow> (string \<times> string) list" where
  "setHeader [] k v = [(k, v)]"
| "setHeader ((k', v') # acc) k v =
     (if k' = k then (k, v) # acc else (k', v') # setHeader acc k v)"

definition headerStep :: "(string \<times> string) list \<Rightarrow> string \<Rightarrow> (string \<times> string) list" where
  "headerStep acc header =
     (case map trim (splitOn CHR '':'' header) of
        key # value # _ \<Rightarrow> (if key \<noteq> [] \<and> value \<noteq> [] then setHeader acc key value else acc)
      | _ \<Rightarrow> acc)"

definition reduceHeaders :: "string list \<Rightarrow> (string \<times> string) list" where
  "reduceHeaders hs = foldl headerStep [] hs"

text \<open>
  \<open>uploadImage\<close>: the placeholder guard, the request, the status check,
  \<open>response.json()\<close>, and \<open>result.data.url\<close>. Its \<open>catch\<close> logs and rethrows, so an error
  leaves as it came. The second component lists the requests issued.
\<close>

definition uploadImage ::
  "platform \<Rightarrow> ImageUploaderSettings \<Rightarrow> File \<Rightarrow> (error + jsvalue) \<times> request list" where
  "uploadImage e s file =
     (if apiUrl s = ''http://your-api.com/upload'' then (Inl NotConfigured, [])
      else
        (let rq = \<lparr> req_url = apiUrl s, req_method = method_s s, req_image = file,
                    req_headers = reduceHeaders (customHeaders s) \<rparr>
         in case fetch e rq of
              Inl msg \<Rightarrow> (Inl (Rejected msg), [Upload rq])
            | Inr response \<Rightarrow>
                if \<not> res_ok response then (Inl (HttpError (res_status response)), [Upload rq])
                else
                  (case res_json response of
                     None \<Rightarrow> (Inl (Rejected ''invalid JSON''), [Upload rq])
                   | Some result \<Rightarrow>
                       (case getProp result ''data'' of
                          Inl err \<Rightarrow> (Inl err, [Upload rq])
                        | Inr d \<Rightarrow> (getProp d ''url'', [Upload rq])))))"

subsection \<open>Width classifier\<close>

text \<open>
  \<open>getDefaultWidth\<close>: the image decoder calls \<open>onload\<close> with the decoded width or
  \<open>onerror\<close>; the promise resolves to a number or to \<open>null\<close>.
\<close>

datatype decoded = Loaded int | DecodeError

fun getDefaultWidth :: "ImageUploaderSettings \<Rightarrow> decoded \<Rightarrow> int option" where
  "getDefaultWidth s (Loaded width) =
     Some (if width > 1600 then defaultWidthLarge s
           else if width > 1200 then defaultWidthMedium s
           else if width > 800 then defaultWidthSmall s
           else width)"
| "getDefaultWidth s DecodeError = None"

subsection \<open>Batch orchestrator\<close>

text \<open>
  One element of \<open>images\<close>, and what one promise of a batch resolves to. The source's
  result is the pair of marks; \<open>status\<close> names the branch that produced it (the source
  records it only in the counter it increments) and \<open>requests\<close> lists the requests the
  item issued.
\<close>

record image =
  url :: string
  originalMark :: string

datatype status = Success | Failed | Skipped | Blacklisted

record outcome =
  status :: status
  resultOriginalMark :: string
  newMark :: string
  requests :: "request list"

text \<open>
  The \<open>try\<close> block of the item callback: \<open>Inr\<close> is a \<open>return\<close>, \<open>Inl\<close> a \<open>throw\<close>. The counters
  are updated where the source updates them.
\<close>

definition tryBlock ::
  "platform \<Rightarrow> ImageUploaderSettings \<Rightarrow> image \<Rightarrow> UploadProgress \<Rightarrow>
     (error + status \<times> string) \<times> UploadProgress \<times> request list" where
  "tryBlock e s img p =
     (if isUrlBlacklisted s (url img) then
        (Inr (Blacklisted, originalMark img),
         p\<lparr> blacklisted := blacklisted p + 1, current := current p + 1 \<rparr>, [])
      else
        (case newURL e (apiUrl s) of
           None \<Rightarrow> (Inl InvalidURL, p, [])
         | Some api \<Rightarrow>
             if startsWith (url img) (origin api) then
               (Inr (Skipped, originalMark img),
                p\<lparr> skipped := skipped p + 1, current := current p + 1 \<rparr>, [])
             else
               (case requestUrl e (url img) of
                  Inl msg \<Rightarrow> (Inl (Rejected msg), p, [Download (url img)])
                | Inr response \<Rightarrow>
                    if dl_status response \<noteq> 200 then
                      (Inl (DownloadFailed (dl_status response)), p, [Download (url img)])
                    else
                      (let fileName = getUrlFileName e (url img);
                           mimeType =
                             (case map_of (dl_headers response) ''content-type'' of
                                Some t \<Rightarrow> if t \<noteq> [] then t else getMimeType (url img)
                              | None \<Rightarrow> getMimeType (url img));
                           file = \<lparr> file_bits = arrayBuffer response, file_name = fileName,
                                    file_type = mimeType \<rparr>;
                           (r, rqs) = uploadImage e s file
                       in case r of
                            Inl err \<Rightarrow> (Inl err, p, Download (url img) # rqs)
                          | Inr newUrl \<Rightarrow>
                              if truthy newUrl then
                                (Inr (Success,
                                      replace (originalMark img) (url img) (toStringJS newUrl)),
                                 p\<lparr> success := success p + 1 \<rparr>, Download (url img) # rqs)
                              else (Inl EmptyUrl, p, Download (url img) # rqs)))))"

text \<open>The item callback: \<open>try\<close>, then \<open>catch\<close> on a throw, then \<open>finally\<close> in every case.\<close>

definition processImage ::
  "platform \<Rightarrow> ImageUploaderSettings \<Rightarrow> image \<Rightarrow> UploadProgress \<Rightarrow> outcome \<times> UploadProgress" where
  "processImage e s img p =
     (let (r, p1, rqs) = tryBlock e s img p;
          (res, p2) =
            (case r of
               Inr (st, nm) \<Rightarrow>
                 (\<lparr> status = st, resultOriginalMark = originalMark img, newMark = nm,
                    requests = rqs \<rparr>, p1)
             | Inl err \<Rightarrow>
                 (\<lparr> status = Failed, resultOriginalMark = originalMark img,
                    newMark = originalMark img, requests = rqs \<rparr>,
                  p1\<lparr> failed := failed p1 + 1, errors := errors p1 @ [(url img, err)] \<rparr>))
      in (res, p2\<lparr> current := current p2 + 1 \<rparr>))"

text \<open>
  The state of one run: the working copy of the text, the counters, and the results of
  the batches finished so far. The counters after a batch do not depend on the order in
  which its promises settle, since every callback updates them in one uninterrupted
  step; the model settles them in the order of the list.
\<close>

record run =
  content :: string
  progress :: UploadProgress
  results :: "outcome list"

fun runPromises ::
  "platform \<Rightarrow> ImageUploaderSettings \<Rightarrow> image list \<Rightarrow> UploadProgress \<Rightarrow>
     outcome list \<times> UploadProgress" where
  "runPromises e s [] p = ([], p)"
| "runPromises e s (img # imgs) p =
     (let (r, p1) = processImage e s img p;
          (rs, p2) = runPromises e s imgs p1
      in (r # rs, p2))"

definition applyResults :: "string \<Rightarrow> outcome list \<Rightarrow> string" where
  "applyResults c rs = foldl (\<lambda>c r. replace c (resultOriginalMark r) (newMark r)) c rs"

definition runBatch ::
  "platform \<Rightarrow> ImageUploaderSettings \<Rightarrow> image list \<Rightarrow> run \<Rightarrow> run" where
  "runBatch e s batch st =
     (let (rs, p) = runPromises e s batch (progress st)
      in \<lparr> content = applyResults (content st) rs, progress = p, results = results st @ rs \<rparr>)"

text \<open>
  The loop \<open>for (let i = 0; i < images.length; i += maxConcurrent)\<close> with
  \<open>batch = images.slice(i, i + maxConcurrent)\<close>. With \<open>maxConcurrent = 0\<close> it does not
  end, so the result is an option.
\<close>

partial_function (option) batchLoop ::
  "platform \<Rightarrow> ImageUploaderSettings \<Rightarrow> image list \<Rightarrow> nat \<Rightarrow> nat \<Rightarrow> run \<Rightarrow> run option" where
  "batchLoop e s images maxConcurrent i st =
     (if i < length images then
        batchLoop e s images maxConcurrent (i + maxConcurrent)
          (runBatch e s (take maxConcurrent (drop i images)) st)
      else Some st)"

definition initialProgress :: "image list \<Rightarrow> UploadProgress" where
  "initialProgress images =
     \<lparr> total_n = length images, current = 0, success = 0, failed = 0, skipped = 0,
       blacklisted = 0, errors = [] \<rparr>"

definition uploadImagesConcurrently ::
  "platform \<Rightarrow> ImageUploaderSettings \<Rightarrow> string \<Rightarrow> image list \<Rightarrow> nat \<Rightarrow> run option" where
  "uploadImagesConcurrently e s editorValue images maxConcurrent =
     batchLoop e s images maxConcurrent 0
       \<lparr> content = editorValue, progress = initialProgress images, results = [] \<rparr>"

text \<open>
  \<open>uploadAllImages\<close>, from the matches of the image pattern on: nothing happens without
  a match; otherwise the batches run three at a time and the editor receives the new
  text when at least one upload succeeded. The result is the editor's text afterwards.
\<close>

definition uploadAllImages ::
  "platform \<Rightarrow> ImageUploaderSettings \<Rightarrow> string \<Rightarrow> image list \<Rightarrow> string option" where
  "uploadAllImages e s editorValue images =
     (if images = [] then Some editorValue
      else
        (case uploadImagesConcurrently e s editorValue images 3 of
           None \<Rightarrow> None
         | Some st \<Rightarrow>
             Some (if success (progress st) > 0 then content st else editorValue)))"

section \<open>The second listing of \<open>part_000\<close>\<close>

text \<open>
  The file holds a second, shorter copy of the plugin, without progress tracking. Where
  a function of it differs from its namesake above, it is modelled under the suffix
  \<open>_listing2\<close>.
\<close>

text \<open>
  \<open>getValueByPath\<close>: \<open>path.split('.').reduce((acc, part) => acc && acc[part], obj)\<close>.
\<close>

definition getValueByPath :: "jsvalue \<Rightarrow> string \<Rightarrow> jsvalue" where
  "getValueByPath obj path =
     foldl (\<lambda>acc part. if truthy acc then member acc part else acc) obj
       (splitOn CHR ''.'' path)"

text \<open>
  The \<open>forEach\<close> over \<open>customHeaders\<close> of the second \<open>uploadImage\<close>:
  \<open>[key, ...values] = header.split(':')\<close>, stored under the trimmed key with the trimmed
  \<open>values.join(':')\<close> when the key is non-empty and there is a colon.
\<close>

definition headerStep_listing2 ::
  "(string \<times> string) list \<Rightarrow> string \<Rightarrow> (string \<times> string) list" where
  "headerStep_listing2 headers header =
     (case splitOn CHR '':'' header of
        key # values \<Rightarrow>
          (if key \<noteq> [] \<and> length values > 0
           then setHeader headers (trim key) (trim (joinWith CHR '':'' values))
           else headers)
      | [] \<Rightarrow> headers)"

definition forEachHeaders_listing2 :: "string list \<Rightarrow> (string \<times> string) list" where
  "forEachHeaders_listing2 hs = foldl headerStep_listing2 [(''Accept'', ''application/json'')] hs"

text \<open>The second \<open>uploadImage\<close>: no placeholder guard, and the configured path.\<close>

definition uploadImage_listing2 ::
  "platform \<Rightarrow> ImageUploaderSettings \<Rightarrow> File \<Rightarrow> (error + jsvalue) \<times> request list" where
  "uploadImage_listing2 e s file =
     (let rq = \<lparr> req_url = apiUrl s, req_method = method_s s, req_image = file,
                 req_headers = forEachHeaders_listing2 (customHeaders s) \<rparr>
      in case fetch e rq of
           Inl msg \<Rightarrow> (Inl (Rejected msg), [Upload rq])
         | Inr response \<Rightarrow>
             if \<not> res_ok response then (Inl (HttpError (res_status response)), [Upload rq])
             else
               (case res_json response of
                  None \<Rightarrow> (Inl (Rejected ''invalid JSON''), [Upload rq])
                | Some json \<Rightarrow> (Inr (getValueByPath json (jsonPath s)), [Upload rq])))"

text \<open>The second \<open>getDefaultWidth\<close>, with the three widths written in the code.\<close>

fun getDefaultWidth_listing2 :: "decoded \<Rightarrow> int option" where
  "getDefaultWidth_listing2 (Loaded width) =
     Some (if width > 1600 then 800
           else if width > 1200 then 600
           else if width > 800 then 400
           else width)"
| "getDefaultWidth_listing2 DecodeError = None"

section \<open>Sample inputs\<close>

text \<open>
  A platform whose parser knows two addresses, whose downloads succeed and whose upload
  endpoint answers 200 with a given body; settings pointing at that endpoint; a remote
  image, one whose URL is written in capitals, one whose URL starts with a blank, one
  already on the endpoint's origin, and the file the download of the remote image yields.
\<close>

definition sampleURL :: "string \<Rightarrow> URL option" where
  "sampleURL s =
     (if s = ''http://api.test/upload''
      then Some \<lparr> origin = ''http://api.test'', pathname = ''/upload'' \<rparr>
      else if s = ''http://img.example/a.png''
      then Some \<lparr> origin = ''http://img.example'', pathname = ''/a.png'' \<rparr>
      else None)"

definition samplePlatform :: "jsvalue \<Rightarrow> platform" where
  "samplePlatform body =
     \<lparr> newURL = sampleURL,
       requestUrl = (\<lambda>u. Inr \<lparr> dl_status = 200, dl_headers = [(''content-type'', ''image/png'')],
                               arrayBuffer = ''PNG'' \<rparr>),
       fetch = (\<lambda>rq. Inr \<lparr> res_status = 200, res_json = Some body \<rparr>) \<rparr>"

definition sampleSettings :: ImageUploaderSettings where
  "sampleSettings = DEFAULT_SETTINGS \<lparr> apiUrl := ''http://api.test/upload'' \<rparr>"

definition sampleImage :: image where
  "sampleImage =
     \<lparr> url = ''http://img.example/a.png'', originalMark = ''![](http://img.example/a.png)'' \<rparr>"

definition upperCaseImage :: image where
  "upperCaseImage =
     \<lparr> url = ''HTTPS://Img.Example/a.png'', originalMark = ''![](HTTPS://Img.Example/a.png)'' \<rparr>"

definition blankLedImage :: image where
  "blankLedImage =
     \<lparr> url = '' example.com/a.png'', originalMark = ''![]( example.com/a.png)'' \<rparr>"

definition hostedImage :: image where
  "hostedImage =
     \<lparr> url = ''http://api.test/a.png'', originalMark = ''![](http://api.test/a.png)'' \<rparr>"

definition sampleFile :: File where
  "sampleFile = \<lparr> file_bits = ''PNG'', file_name = ''a.png'', file_type = ''image/png'' \<rparr>"

definition dataUrl :: "string \<Rightarrow> jsvalue" where
  "dataUrl u = JObj [(''data'', JObj [(''url'', JStr u)])]"

lemmas sample_defs = sampleURL_def samplePlatform_def sampleSettings_def sampleImage_def
  hostedImage_def upperCaseImage_def blankLedImage_def sampleFile_def dataUrl_def DEFAULT_SETTINGS_def

section \<open>The batch loop returns\<close>

text \<open>
  With a positive \<open>maxConcurrent\<close> the loop ends, and since no item reads the working text,
  running the batches one after the other is running all items in one batch.
\<close>

lemma runPromises_append:
  "runPromises e s (xs @ ys) p =
     (let (rs1, p1) = runPromises e s xs p; (rs2, p2) = runPromises e s ys p1
      in (rs1 @ rs2, p2))"
  by (induction xs arbitrary: p) (simp_all add: split_beta)

lemma applyResults_append:
  "applyResults c (rs1 @ rs2) = applyResults (applyResults c rs1) rs2"
  by (simp add: applyResults_def)

lemma runBatch_Nil: "runBatch e s [] st = st"
  by (simp add: runBatch_def applyResults_def)

lemma runBatch_append:
  "runBatch e s (xs @ ys) st = runBatch e s ys (runBatch e s xs st)"
  by (simp add: runBatch_def runPromises_append split_beta applyResults_append)

lemma batchLoop_returns:
  assumes "0 < m"
  shows "batchLoop e s images m i st = Some (runBatch e s (drop i images) st)"
proof (induction "length images - i" arbitrary: i st rule: less_induct)
  case less
  show ?case
  proof (cases "i < length images")
    case True
    with assms have "length images - (i + m) < length images - i" by arith
    then have "batchLoop e s images m (i + m) (runBatch e s (take m (drop i images)) st) =
        Some (runBatch e s (drop (i + m) images) (runBatch e s (take m (drop i images)) st))"
      by (rule less)
    also have "\<dots> = Some (runBatch e s (take m (drop i images) @ drop (i + m) images) st)"
      by (simp only: runBatch_append)
    also have "take m (drop i images) @ drop (i + m) images = drop i images"
      by (metis add.commute append_take_drop_id drop_drop)
    finally have "batchLoop e s images m (i + m) (runBatch e s (take m (drop i images)) st) =
        Some (runBatch e s (drop i images) st)" .
    with True show ?thesis
      by (subst batchLoop.simps) simp
  next
    case False
    then show ?thesis
      by (subst batchLoop.simps) (simp add: runBatch_Nil)
  qed
qed

lemma uploadImagesConcurrently_returns:
  "0 < m \<Longrightarrow>
   uploadImagesConcurrently e s v images m =
     Some (runBatch e s images \<lparr> content = v, progress = initialProgress images, results = [] \<rparr>)"
  by (simp add: uploadImagesConcurrently_def batchLoop_returns)

lemma results_uploadImagesConcurrently:
  "0 < m \<Longrightarrow>
   \<exists>st. uploadImagesConcurrently e s v images m = Some st \<and>
        results st = fst (runPromises e s images (initialProgress images)) \<and>
        progress st = snd (runPromises e s images (initialProgress images))"
  by (simp add: uploadImagesConcurrently_returns runBatch_def split_beta)

lemma length_runPromises: "length (fst (runPromises e s imgs p)) = length imgs"
  by (induction imgs arbitrary: p) (simp_all add: split_beta)

lemma runPromises_nth:
  "i < length imgs \<Longrightarrow>
   \<exists>p'. fst (runPromises e s imgs p) ! i = fst (processImage e s (imgs ! i) p')"
proof (induction imgs arbitrary: i p)
  case Nil
  then show ?case by simp
next
  case (Cons img imgs)
  show ?case
  proof (cases i)
    case 0
    then show ?thesis by (auto simp: split_beta)
  next
    case (Suc j)
    with Cons.prems have "j < length imgs" by simp
    from Cons.IH [OF this] show ?thesis using Suc by (simp add: split_beta)
  qed
qed

lemmas eval_defs = uploadImagesConcurrently_returns runBatch_def processImage_def tryBlock_def
  isUrlBlacklisted_def toLowerCase_def lowerChar_def trim_def isWhiteSpace_def
  stripProtocol_def startsWith_def applyResults_def replace_def initialProgress_def
  uploadImage_def getProp_def res_ok_def reduceHeaders_def getUrlFileName_def
  substringAfterLast_def

section \<open>One item\<close>

lemma isUrlBlacklisted_iff:
  "isUrlBlacklisted s u \<longleftrightarrow>
     (\<exists>d \<in> set (blacklistDomains s).
        startsWith (stripProtocol (toLowerCase u)) (stripProtocol (trim (toLowerCase d))))"
  by (simp add: isUrlBlacklisted_def list_ex_iff)

lemma processImage_blacklisted:
  "isUrlBlacklisted s (url img) \<Longrightarrow>
   processImage e s img p =
     (\<lparr> status = Blacklisted, resultOriginalMark = originalMark img,
        newMark = originalMark img, requests = [] \<rparr>,
      p\<lparr> blacklisted := blacklisted p + 1, current := current p + 2 \<rparr>)"
  by (simp add: processImage_def tryBlock_def)

lemma processImage_already_uploaded:
  "\<not> isUrlBlacklisted s (url img) \<Longrightarrow> newURL e (apiUrl s) = Some api \<Longrightarrow>
   startsWith (url img) (origin api) \<Longrightarrow>
   processImage e s img p =
     (\<lparr> status = Skipped, resultOriginalMark = originalMark img,
        newMark = originalMark img, requests = [] \<rparr>,
      p\<lparr> skipped := skipped p + 1, current := current p + 2 \<rparr>)"
  by (simp add: processImage_def tryBlock_def)

lemma processImage_invalid_api_url:
  "\<not> isUrlBlacklisted s (url img) \<Longrightarrow> newURL e (apiUrl s) = None \<Longrightarrow>
   processImage e s img p =
     (\<lparr> status = Failed, resultOriginalMark = originalMark img,
        newMark = originalMark img, requests = [] \<rparr>,
      p\<lparr> failed := failed p + 1, errors := errors p @ [(url img, InvalidURL)],
         current := current p + 1 \<rparr>)"
  by (simp add: processImage_def tryBlock_def)

lemma tryBlock_errors: "errors (fst (snd (tryBlock e s img p))) = errors p"
  by (simp add: tryBlock_def Let_def split: option.splits sum.splits prod.splits)

lemma processImage_errors_mono:
  "set (errors p) \<subseteq> set (errors (snd (processImage e s img p)))"
  using tryBlock_errors [of e s img p]
  by (cases "tryBlock e s img p") (auto simp: processImage_def split: sum.splits)

lemma runPromises_errors_mono:
  "set (errors p) \<subseteq> set (errors (snd (runPromises e s imgs p)))"
proof (induction imgs arbitrary: p)
  case Nil
  show ?case by simp
next
  case (Cons img imgs)
  have "set (errors p) \<subseteq> set (errors (snd (processImage e s img p)))"
    by (rule processImage_errors_mono)
  also have "\<dots> \<subseteq> set (errors (snd (runPromises e s imgs (snd (processImage e s img p)))))"
    by (rule Cons.IH)
  finally show ?case by (simp add: split_beta)
qed

lemma runPromises_nth_errors:
  "i < length imgs \<Longrightarrow>
   \<exists>p'. fst (runPromises e s imgs p) ! i = fst (processImage e s (imgs ! i) p') \<and>
        set (errors (snd (processImage e s (imgs ! i) p')))
          \<subseteq> set (errors (snd (runPromises e s imgs p)))"
proof (induction imgs arbitrary: i p)
  case Nil
  then show ?case by simp
next
  case (Cons img imgs)
  show ?case
  proof (cases i)
    case 0
    have "set (errors (snd (processImage e s img p)))
        \<subseteq> set (errors (snd (runPromises e s imgs (snd (processImage e s img p)))))"
      by (rule runPromises_errors_mono)
    with 0 show ?thesis by (auto simp: split_beta)
  next
    case (Suc j)
    with Cons.prems have "j < length imgs" by simp
    from Cons.IH [OF this] show ?thesis using Suc by (simp add: split_beta)
  qed
qed

lemma runPromises_all_blacklisted:
  "list_all (\<lambda>img. isUrlBlacklisted s (url img)) imgs \<Longrightarrow>
   runPromises e s imgs p =
     (map (\<lambda>img. \<lparr> status = Blacklisted, resultOriginalMark = originalMark img,
                    newMark = originalMark img, requests = [] \<rparr>) imgs,
      p\<lparr> blacklisted := blacklisted p + length imgs, current := current p + 2 * length imgs \<rparr>)"
  by (induction imgs arbitrary: p) (simp_all add: processImage_blacklisted)

section \<open>Strings\<close>

lemma isWhiteSpace_lowerChar: "isWhiteSpace (lowerChar c) = isWhiteSpace c"
  by (simp add: isWhiteSpace_def lowerChar_def)

lemma dropWhile_toLowerCase:
  "dropWhile isWhiteSpace (toLowerCase s) = toLowerCase (dropWhile isWhiteSpace s)"
  by (induction s) (simp_all add: toLowerCase_def isWhiteSpace_lowerChar)

lemma trim_toLowerCase: "trim (toLowerCase s) = toLowerCase (trim s)"
proof -
  have r: "rev (toLowerCase t) = toLowerCase (rev t)" for t
    by (simp add: toLowerCase_def rev_map)
  show ?thesis
    by (simp add: trim_def dropWhile_toLowerCase r)
qed

lemma startsWith_Nil: "startsWith s []"
  by (simp add: startsWith_def)

lemma splitAtFirst_Some: "splitAtFirst pat s = Some (b, a) \<Longrightarrow> s = b @ pat @ a"
proof (induction s arbitrary: b)
  case Nil
  then show ?case by (simp split: if_splits)
next
  case (Cons c cs)
  show ?case
  proof (cases "startsWith (c # cs) pat")
    case True
    with Cons.prems have "b = []" "a = drop (length pat) (c # cs)" by simp_all
    moreover from True have "take (length pat) (c # cs) = pat" by (simp add: startsWith_def)
    ultimately show ?thesis by (metis append_Nil append_take_drop_id)
  next
    case False
    with Cons.prems obtain b' where "splitAtFirst pat cs = Some (b', a)" "b = c # b'"
      by auto
    with Cons.IH show ?thesis by simp
  qed
qed

lemma splitAtFirst_occurs: "\<exists>b a. splitAtFirst pat (x @ pat @ y) = Some (b, a)"
proof (induction x)
  case Nil
  have "startsWith (pat @ y) pat" by (simp add: startsWith_def)
  then show ?case by (cases "pat @ y") auto
next
  case (Cons c x)
  then show ?case by auto
qed

lemma getSubstitution_plain:
  "CHR ''$'' \<notin> set rep \<Longrightarrow> getSubstitution b m a rep = rep"
  by (induction b m a rep rule: getSubstitution.induct) auto

lemma replace_plain:
  "splitAtFirst pat s = Some (b, a) \<Longrightarrow> CHR ''$'' \<notin> set rep \<Longrightarrow>
   s = b @ pat @ a \<and> replace s pat rep = b @ rep @ a"
  by (simp add: replace_def getSubstitution_plain splitAtFirst_Some)

section \<open>The counters\<close>

text \<open>
  What one item, and then a whole run, does to the counters: exactly one of \<open>success\<close>,
  \<open>failed\<close>, \<open>skipped\<close> and \<open>blacklisted\<close> grows by one; \<open>current\<close> grows by one in the
  \<open>finally\<close> block and once more in the two branches that also increment it themselves.
\<close>

lemma tryBlock_counters:
  "tryBlock e s img p = (r, p1, rqs) \<Longrightarrow>
   (case r of
      Inl err \<Rightarrow> p1 = p
    | Inr (st, nm) \<Rightarrow>
        st \<noteq> Failed \<and>
        p1 = (case st of
                Success \<Rightarrow> p\<lparr> success := success p + 1 \<rparr>
              | Skipped \<Rightarrow> p\<lparr> skipped := skipped p + 1, current := current p + 1 \<rparr>
              | Blacklisted \<Rightarrow> p\<lparr> blacklisted := blacklisted p + 1, current := current p + 1 \<rparr>
              | Failed \<Rightarrow> p))"
  by (auto simp: tryBlock_def Let_def split: option.splits sum.splits prod.splits if_splits)

lemma processImage_counters:
  assumes "processImage e s img p = (r, p')"
  shows "success p' + failed p' + skipped p' + blacklisted p' =
           success p + failed p + skipped p + blacklisted p + 1 \<and>
         current p' + skipped p + blacklisted p =
           current p + 1 + skipped p' + blacklisted p' \<and>
         total_n p' = total_n p"
proof -
  obtain t p1 rqs where tb: "tryBlock e s img p = (t, p1, rqs)"
    by (cases "tryBlock e s img p") auto
  note c = tryBlock_counters [OF tb]
  show ?thesis
    using assms c tb
    by (cases t) (auto simp: processImage_def split: status.splits)
qed

lemma runPromises_counters:
  "success (snd (runPromises e s imgs p)) + failed (snd (runPromises e s imgs p)) +
     skipped (snd (runPromises e s imgs p)) + blacklisted (snd (runPromises e s imgs p)) =
     success p + failed p + skipped p + blacklisted p + length imgs \<and>
   current (snd (runPromises e s imgs p)) + skipped p + blacklisted p =
     current p + length imgs +
     skipped (snd (runPromises e s imgs p)) + blacklisted (snd (runPromises e s imgs p)) \<and>
   total_n (snd (runPromises e s imgs p)) = total_n p"
proof (induction imgs arbitrary: p)
  case Nil
  show ?case by simp
next
  case (Cons img imgs)
  obtain r p1 where pi: "processImage e s img p = (r, p1)"
    by (cases "processImage e s img p") auto
  from processImage_counters [OF pi] Cons.IH [of p1] pi
  show ?case by (simp add: split_beta)
qed

lemma progress_after_run:
  assumes "0 < m"
  shows "\<exists>st. uploadImagesConcurrently e s v images m = Some st \<and>
           total_n (progress st) = length images \<and>
           success (progress st) + failed (progress st) + skipped (progress st) +
             blacklisted (progress st) = length images \<and>
           current (progress st) =
             length images + skipped (progress st) + blacklisted (progress st)"
proof -
  from results_uploadImagesConcurrently [OF assms]
  obtain st where st: "uploadImagesConcurrently e s v images m = Some st"
    and pr: "progress st = snd (runPromises e s images (initialProgress images))"
    by blast
  from runPromises_counters [of e s images "initialProgress images"] pr
  have "total_n (progress st) = length images \<and>
        success (progress st) + failed (progress st) + skipped (progress st) +
          blacklisted (progress st) = length images \<and>
        current (progress st) =
          length images + skipped (progress st) + blacklisted (progress st)"
    by (simp add: initialProgress_def)
  with st show ?thesis by blast
qed

section \<open>The claims\<close>

subsection \<open>C1: the result URL and the \<open>jsonPath\<close> setting\<close>

text \<open>
  The uploader of the first listing never reads \<open>jsonPath\<close>.
\<close>

lemma uploadImage_ignores_jsonPath:
  "uploadImage e (s\<lparr> jsonPath := path \<rparr>) file = uploadImage e s file"
  by (simp add: uploadImage_def)

text \<open>
  C1. The claim: the uploader extracts the result URL by splitting the configured
  \<open>jsonPath\<close> on dots and walking the segments through the parsed body. At the endpoint
  that answers \<open>{"url": "http://api.test/a.png"}\<close>, with \<open>jsonPath\<close> set to \<open>url\<close>,
  \<open>uploadImage\<close> reads \<open>result.data.url\<close> all the same and throws a \<open>TypeError\<close>, where
  \<open>getValueByPath\<close> of the second listing finds the URL under the configured path.
\<close>

theorem jsonPath_setting_ignored:
  "uploadImage (samplePlatform (JObj [(''url'', JStr ''http://api.test/a.png'')]))
     (sampleSettings \<lparr> jsonPath := ''url'' \<rparr>) sampleFile =
     (Inl TypeError,
      [Upload \<lparr> req_url = ''http://api.test/upload'', req_method = ''POST'',
                req_image = sampleFile, req_headers = [] \<rparr>]) \<and>
   getValueByPath (JObj [(''url'', JStr ''http://api.test/a.png'')]) ''url'' =
     JStr ''http://api.test/a.png''"
  by (simp add: uploadImage_def getValueByPath_def getProp_def res_ok_def reduceHeaders_def
      sample_defs)

subsection \<open>C2: the progress counters\<close>

text \<open>
  C2. The claim: every item increments \<open>current\<close> exactly once, so that \<open>current\<close> is the
  sum of the four outcome counters and never exceeds \<open>total\<close>. A run over one blacklisted
  image ends with \<open>current = 2\<close> and \<open>total = 1\<close>: the blacklisted branch increments
  \<open>current\<close> and the \<open>finally\<close> block increments it again.
\<close>

theorem progress_current_counted_twice:
  "uploadImagesConcurrently (samplePlatform (dataUrl ''http://api.test/a.png''))
     (sampleSettings \<lparr> blacklistDomains := [''img.example''] \<rparr>)
     ''![](http://img.example/a.png)'' [sampleImage] 3 =
   Some \<lparr> content = ''![](http://img.example/a.png)'',
          progress = \<lparr> total_n = 1, current = 2, success = 0, failed = 0, skipped = 0,
                       blacklisted = 1, errors = [] \<rparr>,
          results = [\<lparr> status = Blacklisted,
                       resultOriginalMark = ''![](http://img.example/a.png)'',
                       newMark = ''![](http://img.example/a.png)'', requests = [] \<rparr>] \<rparr>"
  by (simp add: uploadImagesConcurrently_returns runBatch_def processImage_def tryBlock_def
      isUrlBlacklisted_def toLowerCase_def lowerChar_def trim_def isWhiteSpace_def
      stripProtocol_def startsWith_def applyResults_def replace_def initialProgress_def
      sample_defs)

subsection \<open>C3: blacklisted references\<close>

text \<open>
  C3, as stated, fails: \<open>isUrlBlacklisted\<close> also trims the entry, after lower-casing it
  and before removing the prefix, and it lower-cases before it removes the prefix. With
  the entry \<open> example.com\<close>, which starts with a blank, the URL \<open> example.com/a.png\<close>
  starts with the entry once both are stripped and lower-cased, in either order, and yet
  it is not blacklisted: the entry is compared as \<open>example.com\<close>. The reference goes on
  to the download, which this platform refuses, and ends Failed. And with the entry
  \<open>HTTP:\<close> the URL \<open>HTTP://x.com/a\<close>, stripped first and lower-cased afterwards, starts
  with the entry treated alike, and is not blacklisted either.
\<close>

theorem blacklisted_claim_counterexample:
  "'' example.com'' \<in> set (blacklistDomains (sampleSettings \<lparr> blacklistDomains := ['' example.com''] \<rparr>)) \<and>
   startsWith (toLowerCase (stripProtocol (url blankLedImage)))
     (toLowerCase (stripProtocol '' example.com'')) \<and>
   startsWith (stripProtocol (toLowerCase (url blankLedImage)))
     (stripProtocol (toLowerCase '' example.com'')) \<and>
   \<not> isUrlBlacklisted (sampleSettings \<lparr> blacklistDomains := ['' example.com''] \<rparr>)
       (url blankLedImage) \<and>
   map_option results
     (uploadImagesConcurrently
        (samplePlatform (dataUrl ''http://api.test/a.png'')
           \<lparr> requestUrl := (\<lambda>u. Inl ''net::ERR_FAILED'') \<rparr>)
        (sampleSettings \<lparr> blacklistDomains := ['' example.com''] \<rparr>)
        ''![]( example.com/a.png)'' [blankLedImage] 3) =
     Some [\<lparr> status = Failed, resultOriginalMark = ''![]( example.com/a.png)'',
             newMark = ''![]( example.com/a.png)'',
             requests = [Download '' example.com/a.png''] \<rparr>] \<and>
   startsWith (toLowerCase (stripProtocol ''HTTP://x.com/a''))
     (toLowerCase (stripProtocol ''HTTP:'')) \<and>
   \<not> isUrlBlacklisted (sampleSettings \<lparr> blacklistDomains := [''HTTP:''] \<rparr>)
       ''HTTP://x.com/a''"
  by (simp add: eval_defs sample_defs)

text \<open>
  C3, amended. A reference of a batch whose URL, lower-cased and then without its
  \<open>http://\<close> or \<open>https://\<close> prefix, starts with a configured blacklist entry that is
  lower-cased, trimmed and then without its prefix, has the outcome Blacklisted with the
  new mark equal to the original mark, and no download or upload is issued for it.
\<close>

theorem blacklisted_reference_outcome:
  assumes "0 < maxConcurrent" and "i < length images"
    and "domain \<in> set (blacklistDomains s)"
    and "startsWith (stripProtocol (toLowerCase (url (images ! i))))
           (stripProtocol (trim (toLowerCase domain)))"
  shows "\<exists>st. uploadImagesConcurrently e s editorValue images maxConcurrent = Some st \<and>
           length (results st) = length images \<and>
           results st ! i =
             \<lparr> status = Blacklisted, resultOriginalMark = originalMark (images ! i),
               newMark = originalMark (images ! i), requests = [] \<rparr>"
proof -
  from assms(3,4) have bl: "isUrlBlacklisted s (url (images ! i))"
    unfolding isUrlBlacklisted_iff by blast
  from results_uploadImagesConcurrently [OF assms(1)]
  obtain st where st: "uploadImagesConcurrently e s editorValue images maxConcurrent = Some st"
    and rs: "results st = fst (runPromises e s images (initialProgress images))"
    by blast
  from runPromises_nth [OF assms(2)]
  obtain p' where "results st ! i = fst (processImage e s (images ! i) p')"
    unfolding rs by blast
  with bl have "results st ! i =
      \<lparr> status = Blacklisted, resultOriginalMark = originalMark (images ! i),
        newMark = originalMark (images ! i), requests = [] \<rparr>"
    by (simp add: processImage_blacklisted)
  with st rs show ?thesis by (simp add: length_runPromises)
qed

text \<open>
  An instance: the entry \<open>http://IMG.example\<close> between two blanks and the URL
  \<open>HTTPS://Img.Example/a.png\<close>.
\<close>

theorem blacklisted_reference_outcome_witness:
  "(0::nat) < 3 \<and> (0::nat) < length [upperCaseImage] \<and>
   '' http://IMG.example '' \<in>
     set (blacklistDomains (sampleSettings \<lparr> blacklistDomains := ['' http://IMG.example ''] \<rparr>)) \<and>
   startsWith (stripProtocol (toLowerCase (url ([upperCaseImage] ! 0))))
     (stripProtocol (trim (toLowerCase '' http://IMG.example ''))) \<and>
   (\<exists>st. uploadImagesConcurrently (samplePlatform (dataUrl ''http://api.test/a.png''))
            (sampleSettings \<lparr> blacklistDomains := ['' http://IMG.example ''] \<rparr>)
            ''![](HTTPS://Img.Example/a.png)''
            [upperCaseImage] 3 = Some st \<and>
          length (results st) = length [upperCaseImage] \<and>
          results st ! 0 =
            \<lparr> status = Blacklisted,
              resultOriginalMark = originalMark ([upperCaseImage] ! 0),
              newMark = originalMark ([upperCaseImage] ! 0),
              requests = [] \<rparr>)"
  using blacklisted_reference_outcome
    [of 3 0 "[upperCaseImage]" "'' http://IMG.example ''"
        "sampleSettings \<lparr> blacklistDomains := ['' http://IMG.example ''] \<rparr>"
        "samplePlatform (dataUrl ''http://api.test/a.png'')" "''![](HTTPS://Img.Example/a.png)''"]
  by (simp add: startsWith_def stripProtocol_def toLowerCase_def lowerChar_def trim_def
      isWhiteSpace_def upperCaseImage_def)

subsection \<open>C4: references on the origin of the endpoint\<close>

text \<open>
  C4, as stated, fails where the reference is blacklisted too: the blacklist is checked
  first. With the entry \<open>api.test\<close>, a reference on the origin \<open>http://api.test\<close> of the
  endpoint is Blacklisted, not Skipped.
\<close>

theorem already_uploaded_claim_counterexample:
  "newURL (samplePlatform (dataUrl ''http://api.test/b.png''))
     (apiUrl (sampleSettings \<lparr> blacklistDomains := [''api.test''] \<rparr>)) =
     Some \<lparr> origin = ''http://api.test'', pathname = ''/upload'' \<rparr> \<and>
   startsWith (url hostedImage) ''http://api.test'' \<and>
   map_option results
     (uploadImagesConcurrently (samplePlatform (dataUrl ''http://api.test/b.png''))
        (sampleSettings \<lparr> blacklistDomains := [''api.test''] \<rparr>)
        ''![](http://api.test/a.png)'' [hostedImage] 3) =
     Some [\<lparr> status = Blacklisted, resultOriginalMark = ''![](http://api.test/a.png)'',
             newMark = ''![](http://api.test/a.png)'', requests = [] \<rparr>]"
  by (simp add: eval_defs sample_defs)

text \<open>
  C4, amended. A reference of a batch whose URL is not blacklisted and starts with the
  origin of the configured API URL has the outcome Skipped with the new mark equal to the
  original mark, and no download or upload is issued for it.
\<close>

theorem already_uploaded_reference_outcome:
  assumes "0 < maxConcurrent" and "i < length images"
    and "\<not> isUrlBlacklisted s (url (images ! i))"
    and "newURL e (apiUrl s) = Some api"
    and "startsWith (url (images ! i)) (origin api)"
  shows "\<exists>st. uploadImagesConcurrently e s editorValue images maxConcurrent = Some st \<and>
           length (results st) = length images \<and>
           results st ! i =
             \<lparr> status = Skipped, resultOriginalMark = originalMark (images ! i),
               newMark = originalMark (images ! i), requests = [] \<rparr>"
proof -
  from results_uploadImagesConcurrently [OF assms(1)]
  obtain st where st: "uploadImagesConcurrently e s editorValue images maxConcurrent = Some st"
    and rs: "results st = fst (runPromises e s images (initialProgress images))"
    by blast
  from runPromises_nth [OF assms(2)]
  obtain p' where "results st ! i = fst (processImage e s (images ! i) p')"
    unfolding rs by blast
  then have "results st ! i =
      \<lparr> status = Skipped, resultOriginalMark = originalMark (images ! i),
        newMark = originalMark (images ! i), requests = [] \<rparr>"
    by (simp add: processImage_already_uploaded [OF assms(3,4,5)])
  with st rs show ?thesis by (simp add: length_runPromises)
qed

text \<open>
  An instance: the image \<open>http://api.test/a.png\<close> with an empty blacklist.
\<close>

theorem already_uploaded_reference_outcome_witness:
  "(0::nat) < 3 \<and> (0::nat) < length [hostedImage] \<and>
   \<not> isUrlBlacklisted sampleSettings (url ([hostedImage] ! 0)) \<and>
   newURL (samplePlatform (dataUrl ''http://api.test/b.png'')) (apiUrl sampleSettings) =
     Some \<lparr> origin = ''http://api.test'', pathname = ''/upload'' \<rparr> \<and>
   startsWith (url ([hostedImage] ! 0))
     (origin \<lparr> origin = ''http://api.test'', pathname = ''/upload'' \<rparr>) \<and>
   (\<exists>st. uploadImagesConcurrently (samplePlatform (dataUrl ''http://api.test/b.png''))
            sampleSettings ''![](http://api.test/a.png)'' [hostedImage] 3 = Some st \<and>
          length (results st) = length [hostedImage] \<and>
          results st ! 0 =
            \<lparr> status = Skipped, resultOriginalMark = originalMark ([hostedImage] ! 0),
              newMark = originalMark ([hostedImage] ! 0), requests = [] \<rparr>)"
  using already_uploaded_reference_outcome
    [of 3 0 "[hostedImage]" sampleSettings "samplePlatform (dataUrl ''http://api.test/b.png'')"
        "\<lparr> origin = ''http://api.test'', pathname = ''/upload'' \<rparr>"
        "''![](http://api.test/a.png)''"]
  by (simp add: isUrlBlacklisted_def startsWith_def sample_defs)

subsection \<open>C5: the placeholder guard\<close>

text \<open>
  C5. When \<open>apiUrl\<close> is still the placeholder \<open>http://your-api.com/upload\<close>,
  \<open>uploadImage\<close> fails with the not-configured error and issues no request.
\<close>

theorem uploadImage_placeholder_guard:
  "apiUrl s = ''http://your-api.com/upload'' \<Longrightarrow> uploadImage e s file = (Inl NotConfigured, [])"
  by (simp add: uploadImage_def)

text \<open>
  An instance: the default settings.
\<close>

theorem uploadImage_placeholder_guard_witness:
  "apiUrl DEFAULT_SETTINGS = ''http://your-api.com/upload'' \<and>
   uploadImage (samplePlatform (dataUrl ''http://api.test/a.png'')) DEFAULT_SETTINGS sampleFile =
     (Inl NotConfigured, [])"
  using uploadImage_placeholder_guard
    [of DEFAULT_SETTINGS "samplePlatform (dataUrl ''http://api.test/a.png'')" sampleFile]
  by (simp add: DEFAULT_SETTINGS_def)

text \<open>The error is distinct: \<open>uploadImage\<close> raises it in no other case.\<close>

lemma getProp_not_NotConfigured: "getProp v k \<noteq> Inl NotConfigured"
  by (simp add: getProp_def)

lemma NotConfigured_only_from_guard:
  "fst (uploadImage e s file) = Inl NotConfigured \<Longrightarrow> apiUrl s = ''http://your-api.com/upload''"
  by (auto simp: uploadImage_def Let_def getProp_not_NotConfigured
      split: if_splits sum.splits option.splits)

subsection \<open>C6: custom headers\<close>

text \<open>
  C6. The claim: the whole remainder after the first colon is the header value. For the
  header \<open>Referer: http://example.com\<close> the \<open>reduce\<close> of the first listing stores the
  value \<open>http\<close>, the text between the first colon and the second; the \<open>forEach\<close> of the
  second listing stores \<open>http://example.com\<close>.
\<close>

theorem header_value_cut_at_second_colon:
  "reduceHeaders [''Referer: http://example.com''] = [(''Referer'', ''http'')] \<and>
   forEachHeaders_listing2 [''Referer: http://example.com''] =
     [(''Accept'', ''application/json''), (''Referer'', ''http://example.com'')]"
  by (simp add: reduceHeaders_def headerStep_def forEachHeaders_listing2_def
      headerStep_listing2_def trim_def isWhiteSpace_def)

subsection \<open>C7: an API URL that does not parse\<close>

text \<open>
  C7, as stated, fails in its last part: when \<open>new URL(apiUrl)\<close> throws, the item does not
  go on as if the check had not matched. With the API URL \<open>api.test/upload\<close> the item is
  Failed and issues no request, although download and upload would succeed; on a platform
  whose parser accepts the string with an origin the image is not on, the same item is
  downloaded, uploaded and succeeds.
\<close>

theorem unparsable_api_url_counterexample:
  "newURL (samplePlatform (dataUrl ''http://api.test/a.png''))
     (apiUrl (sampleSettings \<lparr> apiUrl := ''api.test/upload'' \<rparr>)) = None \<and>
   map_option results
     (uploadImagesConcurrently (samplePlatform (dataUrl ''http://api.test/a.png''))
        (sampleSettings \<lparr> apiUrl := ''api.test/upload'' \<rparr>)
        ''![](http://img.example/a.png)'' [sampleImage] 3) =
     Some [\<lparr> status = Failed, resultOriginalMark = ''![](http://img.example/a.png)'',
             newMark = ''![](http://img.example/a.png)'', requests = [] \<rparr>] \<and>
   map_option results
     (uploadImagesConcurrently
        (samplePlatform (dataUrl ''http://api.test/a.png'')
           \<lparr> newURL := (\<lambda>u. Some \<lparr> origin = ''http://elsewhere.test'', pathname = ''/a.png'' \<rparr>) \<rparr>)
        (sampleSettings \<lparr> apiUrl := ''api.test/upload'' \<rparr>)
        ''![](http://img.example/a.png)'' [sampleImage] 3) =
     Some [\<lparr> status = Success, resultOriginalMark = ''![](http://img.example/a.png)'',
             newMark = ''![](http://api.test/a.png)'',
             requests =
               [Download ''http://img.example/a.png'',
                Upload \<lparr> req_url = ''api.test/upload'', req_method = ''POST'',
                         req_image = sampleFile, req_headers = [] \<rparr>] \<rparr>]"
  by (simp add: eval_defs sample_defs)

text \<open>
  C7, amended. When parsing the configured API URL fails at a reference of a batch that
  is not blacklisted, the run still returns, and the reference is not Skipped: it is
  Failed, its new mark is its original mark, no download or upload is issued for it, and
  the error is recorded with its URL in the progress.
\<close>

theorem unparsable_api_url_outcome:
  assumes "0 < maxConcurrent" and "i < length images"
    and "\<not> isUrlBlacklisted s (url (images ! i))"
    and "newURL e (apiUrl s) = None"
  shows "\<exists>st. uploadImagesConcurrently e s editorValue images maxConcurrent = Some st \<and>
           length (results st) = length images \<and>
           results st ! i =
             \<lparr> status = Failed, resultOriginalMark = originalMark (images ! i),
               newMark = originalMark (images ! i), requests = [] \<rparr> \<and>
           (url (images ! i), InvalidURL) \<in> set (errors (progress st))"
proof -
  from results_uploadImagesConcurrently [OF assms(1)]
  obtain st where st: "uploadImagesConcurrently e s editorValue images maxConcurrent = Some st"
    and rs: "results st = fst (runPromises e s images (initialProgress images))"
    and pr: "progress st = snd (runPromises e s images (initialProgress images))"
    by blast
  from runPromises_nth_errors [OF assms(2)]
  obtain p' where nth: "results st ! i = fst (processImage e s (images ! i) p')"
    and sub: "set (errors (snd (processImage e s (images ! i) p'))) \<subseteq> set (errors (progress st))"
    unfolding rs pr by blast
  note pi = processImage_invalid_api_url [OF assms(3,4), of p']
  from nth pi have "results st ! i =
      \<lparr> status = Failed, resultOriginalMark = originalMark (images ! i),
        newMark = originalMark (images ! i), requests = [] \<rparr>"
    by simp
  moreover from sub pi have "(url (images ! i), InvalidURL) \<in> set (errors (progress st))"
    by auto
  ultimately show ?thesis using st rs by (simp add: length_runPromises)
qed

text \<open>
  An instance: the API URL \<open>api.test/upload\<close>, which the sample parser rejects.
\<close>

theorem unparsable_api_url_outcome_witness:
  "(0::nat) < 3 \<and> (0::nat) < length [sampleImage] \<and>
   \<not> isUrlBlacklisted (sampleSettings \<lparr> apiUrl := ''api.test/upload'' \<rparr>) (url ([sampleImage] ! 0)) \<and>
   newURL (samplePlatform (dataUrl ''http://api.test/a.png''))
     (apiUrl (sampleSettings \<lparr> apiUrl := ''api.test/upload'' \<rparr>)) = None \<and>
   (\<exists>st. uploadImagesConcurrently (samplePlatform (dataUrl ''http://api.test/a.png''))
            (sampleSettings \<lparr> apiUrl := ''api.test/upload'' \<rparr>)
            ''![](http://img.example/a.png)'' [sampleImage] 3 = Some st \<and>
          length (results st) = length [sampleImage] \<and>
          results st ! 0 =
            \<lparr> status = Failed, resultOriginalMark = originalMark ([sampleImage] ! 0),
              newMark = originalMark ([sampleImage] ! 0), requests = [] \<rparr> \<and>
          (url ([sampleImage] ! 0), InvalidURL) \<in> set (errors (progress st)))"
  using unparsable_api_url_outcome
    [of 3 0 "[sampleImage]" "sampleSettings \<lparr> apiUrl := ''api.test/upload'' \<rparr>"
        "samplePlatform (dataUrl ''http://api.test/a.png'')" "''![](http://img.example/a.png)''"]
  by (simp add: isUrlBlacklisted_def sample_defs)

subsection \<open>C8: the width classifier\<close>

text \<open>
  C8. For a decoded width \<open>w\<close>: above 1600 the large default, else above 1200 the medium
  default, else above 800 the small default, else \<open>w\<close> itself; a decoding failure gives no
  width (\<open>null\<close>), not an error. The three defaults are 800, 600 and 400.
\<close>

theorem getDefaultWidth_tiers:
  "(1600 < w \<longrightarrow> getDefaultWidth s (Loaded w) = Some (defaultWidthLarge s)) \<and>
   (1200 < w \<and> w \<le> 1600 \<longrightarrow> getDefaultWidth s (Loaded w) = Some (defaultWidthMedium s)) \<and>
   (800 < w \<and> w \<le> 1200 \<longrightarrow> getDefaultWidth s (Loaded w) = Some (defaultWidthSmall s)) \<and>
   (w \<le> 800 \<longrightarrow> getDefaultWidth s (Loaded w) = Some w) \<and>
   getDefaultWidth s DecodeError = None \<and>
   defaultWidthLarge DEFAULT_SETTINGS = 800 \<and>
   defaultWidthMedium DEFAULT_SETTINGS = 600 \<and>
   defaultWidthSmall DEFAULT_SETTINGS = 400"
  by (simp add: DEFAULT_SETTINGS_def)

text \<open>
  The widths 2000, 1600, 1300, 1200, 900, 800 and 500 under the default settings.
\<close>

theorem getDefaultWidth_tiers_witness:
  "getDefaultWidth DEFAULT_SETTINGS (Loaded 2000) = Some 800 \<and>
   getDefaultWidth DEFAULT_SETTINGS (Loaded 1600) = Some 600 \<and>
   getDefaultWidth DEFAULT_SETTINGS (Loaded 1300) = Some 600 \<and>
   getDefaultWidth DEFAULT_SETTINGS (Loaded 1200) = Some 400 \<and>
   getDefaultWidth DEFAULT_SETTINGS (Loaded 900) = Some 400 \<and>
   getDefaultWidth DEFAULT_SETTINGS (Loaded 800) = Some 800 \<and>
   getDefaultWidth DEFAULT_SETTINGS (Loaded 500) = Some 500 \<and>
   getDefaultWidth DEFAULT_SETTINGS DecodeError = None"
proof -
  note t = getDefaultWidth_tiers [where s = DEFAULT_SETTINGS]
  from t [of 0] have d: "defaultWidthLarge DEFAULT_SETTINGS = 800"
    "defaultWidthMedium DEFAULT_SETTINGS = 600" "defaultWidthSmall DEFAULT_SETTINGS = 400"
    by blast+
  from t [of 2000] have "getDefaultWidth DEFAULT_SETTINGS (Loaded 2000) = Some 800"
    by (simp add: d)
  moreover from t [of 1600] have "getDefaultWidth DEFAULT_SETTINGS (Loaded 1600) = Some 600"
    by (simp add: d)
  moreover from t [of 1300] have "getDefaultWidth DEFAULT_SETTINGS (Loaded 1300) = Some 600"
    by (simp add: d)
  moreover from t [of 1200] have "getDefaultWidth DEFAULT_SETTINGS (Loaded 1200) = Some 400"
    by (simp add: d)
  moreover from t [of 900] have "getDefaultWidth DEFAULT_SETTINGS (Loaded 900) = Some 400"
    by (simp add: d)
  moreover from t [of 800] have "getDefaultWidth DEFAULT_SETTINGS (Loaded 800) = Some 800"
    by (simp add: d)
  moreover from t [of 500] have "getDefaultWidth DEFAULT_SETTINGS (Loaded 500) = Some 500"
    by (simp add: d)
  moreover from t [of 0] have "getDefaultWidth DEFAULT_SETTINGS DecodeError = None"
    by blast
  ultimately show ?thesis by blast
qed

text \<open>The classifier of the second listing is this one at the default settings.\<close>

lemma getDefaultWidth_listing2_eq:
  "getDefaultWidth_listing2 d = getDefaultWidth DEFAULT_SETTINGS d"
  by (cases d) (simp_all add: DEFAULT_SETTINGS_def)

subsection \<open>C9: the new mark of a successful upload\<close>

text \<open>
  A successful item builds its new mark with \<open>originalMark.replace(url, newUrl)\<close>, which
  puts the new URL in place of the first occurrence of the old one when the new URL has
  no dollar sign (\<open>replace_plain\<close>).
\<close>

lemma processImage_success:
  "status (fst (processImage e s img p)) = Success \<Longrightarrow>
   \<exists>newUrl. truthy newUrl \<and>
     newMark (fst (processImage e s img p)) =
       replace (originalMark img) (url img) (toStringJS newUrl)"
  by (auto simp: processImage_def tryBlock_def Let_def
      split: option.splits sum.splits prod.splits if_splits)

text \<open>
  C9. The claim: the new mark is the original mark with the old URL replaced by the URL
  the upload returned. When the endpoint returns \<open>http://api.test/a$$b.png\<close>, the new mark
  holds \<open>http://api.test/a$b.png\<close>: \<open>replace\<close> reads the new URL as a replacement
  template, in which \<open>$$\<close> stands for one dollar sign.
\<close>

theorem new_url_read_as_template:
  "fst (processImage (samplePlatform (dataUrl ''http://api.test/a$$b.png'')) sampleSettings
          sampleImage (initialProgress [sampleImage])) =
     \<lparr> status = Success, resultOriginalMark = ''![](http://img.example/a.png)'',
       newMark = ''![](http://api.test/a$b.png)'',
       requests =
         [Download ''http://img.example/a.png'',
          Upload \<lparr> req_url = ''http://api.test/upload'', req_method = ''POST'',
                   req_image = sampleFile, req_headers = [] \<rparr>] \<rparr>"
  by (simp add: processImage_def tryBlock_def uploadImage_def getProp_def res_ok_def
      reduceHeaders_def isUrlBlacklisted_def getUrlFileName_def substringAfterLast_def
      startsWith_def replace_def initialProgress_def sample_defs)

subsection \<open>C10: a blacklist entry that is empty once normalised\<close>

text \<open>
  C10. When a blacklist entry, trimmed, lower-cased and without its \<open>http://\<close> or
  \<open>https://\<close> prefix, is the empty string, \<open>isUrlBlacklisted\<close> holds of every URL: every
  reference of a batch is Blacklisted, no request is issued, and the editor keeps its
  text.
\<close>

theorem empty_blacklist_entry_blocks_everything:
  assumes "domain \<in> set (blacklistDomains s)"
    and "stripProtocol (toLowerCase (trim domain)) = []"
    and "0 < maxConcurrent"
  shows "isUrlBlacklisted s u \<and>
         (\<exists>st. uploadImagesConcurrently e s editorValue images maxConcurrent = Some st \<and>
               map status (results st) = replicate (length images) Blacklisted \<and>
               concat (map requests (results st)) = [] \<and>
               blacklisted (progress st) = length images \<and>
               success (progress st) = 0) \<and>
         uploadAllImages e s editorValue images = Some editorValue"
proof -
  have bl: "isUrlBlacklisted s v" for v
    unfolding isUrlBlacklisted_iff using assms(1,2)
    by (auto simp: trim_toLowerCase startsWith_Nil intro!: bexI [of _ domain])
  then have all: "list_all (\<lambda>img. isUrlBlacklisted s (url img)) images"
    by (simp add: list_all_iff)
  have run: "uploadImagesConcurrently e s editorValue images m =
      Some (runBatch e s images
        \<lparr> content = editorValue, progress = initialProgress images, results = [] \<rparr>)"
    if "0 < m" for m
    using that by (rule uploadImagesConcurrently_returns)
  have st: "map status (results (runBatch e s images
        \<lparr> content = editorValue, progress = initialProgress images, results = [] \<rparr>)) =
        replicate (length images) Blacklisted"
    by (simp add: runBatch_def runPromises_all_blacklisted [OF all] comp_def map_replicate_const)
  have rq: "concat (map requests (results (runBatch e s images
        \<lparr> content = editorValue, progress = initialProgress images, results = [] \<rparr>))) = []"
    by (simp add: runBatch_def runPromises_all_blacklisted [OF all] comp_def)
  have cnt: "blacklisted (progress (runBatch e s images
        \<lparr> content = editorValue, progress = initialProgress images, results = [] \<rparr>)) =
        length images"
    "success (progress (runBatch e s images
        \<lparr> content = editorValue, progress = initialProgress images, results = [] \<rparr>)) = 0"
    by (simp_all add: runBatch_def runPromises_all_blacklisted [OF all] initialProgress_def)
  have "uploadAllImages e s editorValue images = Some editorValue"
    by (simp add: uploadAllImages_def run cnt)
  with bl run [OF assms(3)] st rq cnt show ?thesis by simp
qed

text \<open>
  An instance: the entry \<open> HTTP://\<close>, with a leading blank.
\<close>

theorem empty_blacklist_entry_blocks_everything_witness:
  "'' HTTP://'' \<in> set (blacklistDomains (sampleSettings \<lparr> blacklistDomains := ['' HTTP://''] \<rparr>)) \<and>
   stripProtocol (toLowerCase (trim '' HTTP://'')) = [] \<and> (0::nat) < 3 \<and>
   isUrlBlacklisted (sampleSettings \<lparr> blacklistDomains := ['' HTTP://''] \<rparr>)
     ''http://img.example/a.png'' \<and>
   (\<exists>st. uploadImagesConcurrently (samplePlatform (dataUrl ''http://api.test/a.png''))
            (sampleSettings \<lparr> blacklistDomains := ['' HTTP://''] \<rparr>)
            ''![](http://img.example/a.png) ![](http://api.test/a.png)''
            [sampleImage, hostedImage] 3 = Some st \<and>
          map status (results st) = replicate (length [sampleImage, hostedImage]) Blacklisted \<and>
          concat (map requests (results st)) = [] \<and>
          blacklisted (progress st) = length [sampleImage, hostedImage] \<and>
          success (progress st) = 0) \<and>
   uploadAllImages (samplePlatform (dataUrl ''http://api.test/a.png''))
     (sampleSettings \<lparr> blacklistDomains := ['' HTTP://''] \<rparr>)
     ''![](http://img.example/a.png) ![](http://api.test/a.png)''
     [sampleImage, hostedImage] =
     Some ''![](http://img.example/a.png) ![](http://api.test/a.png)''"
proof -
  have h1: "'' HTTP://'' \<in> set (blacklistDomains (sampleSettings \<lparr> blacklistDomains := ['' HTTP://''] \<rparr>))"
    by simp
  have h2: "stripProtocol (toLowerCase (trim '' HTTP://'')) = []"
    by (simp add: stripProtocol_def toLowerCase_def lowerChar_def trim_def isWhiteSpace_def
        startsWith_def)
  have h3: "(0::nat) < 3" by simp
  from empty_blacklist_entry_blocks_everything [OF h1 h2 h3] h1 h2 h3
  show ?thesis by blast
qed

end
